theory Spec2Isabelle
  imports Main
begin

section \<open>The Connected state of the session (connectedCDA.ts)\<close>

text \<open>
  A JavaScript \<^verbatim>\<open>Error\<close> carries its message. A \<^verbatim>\<open>throw\<close> and a rejected promise are
  both the left injection of \<open>error + 'a\<close>.
\<close>

datatype error = Error string

text \<open>
  Modelled from the spec: the enumeration \<^verbatim>\<open>TerminatingReason\<close> of terminatingCDA.ts, which
  is imported by connectedCDA.ts and is not among the sources. The spec lists its members as
  client-requested, target-initiated transport loss, or other externally supplied causes. The
  only member connectedCDA.ts names is \<^verbatim>\<open>DisconnectedFromWebsocket\<close>.
\<close>

datatype TerminatingReason =
    DisconnectedFromWebsocket
  | ClientRequested
  | OtherCause string

text \<open>
  The collaborators of \<^verbatim>\<open>ConnectedCDA\<close> are injected objects whose code is elsewhere. Every
  method of theirs that the class awaits is a \<open>call\<close>; \<open>'c\<close> is the type of the service
  components.
\<close>

datatype 'c call =
    SuperInstall
  | LogicInstall
  | EnableDomains
  | ComponentInstall 'c
  | RunIfWaitingForDebugger
  | TerminatingInstall TerminatingReason

text \<open>
  What the session does to its collaborators is recorded in a trace. An awaited call is
  \<open>Started\<close> and then either \<open>Resolved\<close> or \<open>Rejected\<close>; the synchronous calls
  (\<^verbatim>\<open>sendEvent\<close>, \<^verbatim>\<open>onClose\<close>, the terminating provider, \<^verbatim>\<open>ChromeDebugAdapter.disconnect\<close>)
  are one event each.
\<close>

datatype 'c event =
    Started "'c call"
  | Resolved "'c call"
  | Rejected "'c call"
  | SentInitializedEvent
  | SubscribedOnClose
  | TerminatingCreated TerminatingReason
  | AdapterDisconnect TerminatingReason

text \<open>
  The collaborators decide whether an awaited call resolves (\<open>None\<close>) or rejects
  (\<open>Some e\<close>). They may decide from everything that has happened so far.
\<close>

type_synonym 'c collaborators = "'c event list \<Rightarrow> 'c call \<Rightarrow> error option"

text \<open>
  The mutable state: the private field \<^verbatim>\<open>_ignoreNextDisconnectedFromWebSocket\<close> (initially
  false), the number of handlers registered with \<^verbatim>\<open>ChromeConnection.onClose\<close>, and the trace.
\<close>

record 'c session =
  ignoreNextDisconnectedFromWebSocket :: bool
  closeHandlers :: nat
  trace :: "'c event list"

type_synonym 'c action = "'c session \<Rightarrow> (error + unit) \<times> 'c session"

definition andThen :: "'c action \<Rightarrow> 'c action \<Rightarrow> 'c action" where
  "andThen m k s = (case m s of (Inl e, s') \<Rightarrow> (Inl e, s') | (Inr _, s') \<Rightarrow> k s')"

definition throw :: "error \<Rightarrow> 'c action" where
  "throw e s = (Inl e, s)"

definition statement :: "('c session \<Rightarrow> 'c session) \<Rightarrow> 'c action" where
  "statement f s = (Inr (), f s)"

definition emit :: "'c event \<Rightarrow> 'c session \<Rightarrow> 'c session" where
  "emit ev s = s\<lparr>trace := trace s @ [ev]\<rparr>"

text \<open>
  \<^verbatim>\<open>await x.f()\<close>: the call starts, the caller is suspended, and the caller continues when
  the promise resolves or receives the rejection as an exception.
\<close>

definition settle :: "'c collaborators \<Rightarrow> 'c call \<Rightarrow> 'c action" where
  "settle env c s =
     (case env (trace s) c of
        None \<Rightarrow> (Inr (), emit (Resolved c) s)
      | Some e \<Rightarrow> (Inl e, emit (Rejected c) s))"

definition await :: "'c collaborators \<Rightarrow> 'c call \<Rightarrow> 'c action" where
  "await env c = andThen (statement (emit (Started c))) (settle env c)"

subsection \<open>disconnect\<close>

text \<open>
  \<^verbatim>\<open>
  public async disconnect(reason: TerminatingReason): Promise<void> {
      const terminatingCDA = this._terminatingCDAProvider(reason);
      await terminatingCDA.install();
      this._chromeDebugAdapter.disconnect(terminatingCDA);
  }
  \<close>
\<close>

definition disconnect :: "'c collaborators \<Rightarrow> TerminatingReason \<Rightarrow> 'c action" where
  "disconnect env reason =
     andThen (statement (emit (TerminatingCreated reason)))
    (andThen (await env (TerminatingInstall reason))
             (statement (emit (AdapterDisconnect reason))))"

subsection \<open>The handlers the constructor passes to the base class\<close>

text \<open>
  \<^verbatim>\<open>
  'disconnect': async () => {
      this._ignoreNextDisconnectedFromWebSocket = true;
      await this.disconnect(TerminatingReason.DisconnectedFromWebsocket);
  },
  \<close>
\<close>

definition disconnectRequest :: "'c collaborators \<Rightarrow> 'c action" where
  "disconnectRequest env =
     andThen (statement (\<lambda>s. s\<lparr>ignoreNextDisconnectedFromWebSocket := True\<rparr>))
             (disconnect env DisconnectedFromWebsocket)"

definition connectedHandlers :: "'c collaborators \<Rightarrow> string \<Rightarrow> 'c action option" where
  "connectedHandlers env name =
     (if name = ''initialize'' then
        Some (throw (Error
          ''The debug adapter is already initialized. Calling initialize again is not supported.''))
      else if name = ''launch'' then
        Some (throw (Error
          ''Can't launch  to a new target while connected to a previous target''))
      else if name = ''attach'' then
        Some (throw (Error
          ''Can't attach to a new target while connected to a previous target''))
      else if name = ''disconnect'' then Some (disconnectRequest env)
      else None)"

text \<open>
  Modelled from the spec: the dispatch of \<^verbatim>\<open>BaseCDAState\<close> (baseCDAState.ts is not among the
  sources). The constructor hands it the command handler declarers and the table above; the
  spec says that each declarer supplies a partial table merged into the state's table, that
  the declarers do not overlap, and that a request is resolved to a handler or fails. The
  wording of that failure is not in the sources.
\<close>

definition callCommandHandler ::
  "(string \<Rightarrow> 'c action option) \<Rightarrow> 'c collaborators \<Rightarrow> string \<Rightarrow> 'c action" where
  "callCommandHandler declared env name =
     (case (declared ++ connectedHandlers env) name of
        None \<Rightarrow> throw (Error (''Unrecognized request: '' @ name))
      | Some handler \<Rightarrow> handler)"

subsection \<open>install\<close>

text \<open>
  \<^verbatim>\<open>
  for (const serviceComponent of this._serviceComponents) {
      await serviceComponent.install();
  }
  \<close>
\<close>

fun installServiceComponents :: "'c collaborators \<Rightarrow> 'c list \<Rightarrow> 'c action" where
  "installServiceComponents env [] = statement (\<lambda>s. s)"
| "installServiceComponents env (c # cs) =
     andThen (await env (ComponentInstall c)) (installServiceComponents env cs)"

text \<open>
  The handler registered with \<^verbatim>\<open>onClose\<close>. The promise of \<^verbatim>\<open>this.disconnect\<close> is not
  awaited, so a rejection is lost; the assignment is inside the conditional.
  \<^verbatim>\<open>
  () => {
      if (!this._ignoreNextDisconnectedFromWebSocket) {
          this.disconnect(TerminatingReason.DisconnectedFromWebsocket);
          this._ignoreNextDisconnectedFromWebSocket = false;
      }
  }
  \<close>
\<close>

definition onCloseHandler :: "'c collaborators \<Rightarrow> 'c session \<Rightarrow> 'c session" where
  "onCloseHandler env s =
     (if \<not> ignoreNextDisconnectedFromWebSocket s then
        (snd (disconnect env DisconnectedFromWebsocket s))
          \<lparr>ignoreNextDisconnectedFromWebSocket := False\<rparr>
      else s)"

definition install :: "'c collaborators \<Rightarrow> 'c list \<Rightarrow> 'c action" where
  "install env serviceComponents =
     andThen (await env SuperInstall)
    (andThen (await env LogicInstall)
    (andThen (await env EnableDomains)
    (andThen (installServiceComponents env serviceComponents)
    (andThen (await env RunIfWaitingForDebugger)
    (andThen (statement (emit SentInitializedEvent))
             (statement (\<lambda>s. emit SubscribedOnClose (s\<lparr>closeHandlers := Suc (closeHandlers s)\<rparr>))))))))"

text \<open>
  The transport closes: every handler registered with \<^verbatim>\<open>onClose\<close> runs. All of them are the
  closure above over the same object.
\<close>

definition transportClosed :: "'c collaborators \<Rightarrow> 'c session \<Rightarrow> 'c session" where
  "transportClosed env s = ((onCloseHandler env) ^^ closeHandlers s) s"

text \<open>
  The \<^verbatim>\<open>disconnect\<close> handler is suspended at \<^verbatim>\<open>await terminatingCDA.install()\<close>, and other
  handlers of the session may run before it continues. The two halves of the handler, before
  and after that suspension:
\<close>

definition disconnectRequestUntilAwait :: "'c session \<Rightarrow> 'c session" where
  "disconnectRequestUntilAwait s =
     emit (Started (TerminatingInstall DisconnectedFromWebsocket))
       (emit (TerminatingCreated DisconnectedFromWebsocket)
          (s\<lparr>ignoreNextDisconnectedFromWebSocket := True\<rparr>))"

definition disconnectRequestAfterAwait :: "'c collaborators \<Rightarrow> 'c action" where
  "disconnectRequestAfterAwait env =
     andThen (settle env (TerminatingInstall DisconnectedFromWebsocket))
             (statement (emit (AdapterDisconnect DisconnectedFromWebsocket)))"

text \<open>
  The events of one run of \<^verbatim>\<open>disconnect(reason)\<close> after the history \<open>before\<close>: the Terminating
  state is created and its install awaited; when the install resolves the adapter finalizes
  the disconnect, and when it rejects the exception leaves \<^verbatim>\<open>disconnect\<close> before that.
\<close>

definition teardownOnce ::
  "'c collaborators \<Rightarrow> 'c event list \<Rightarrow> TerminatingReason \<Rightarrow> 'c event list" where
  "teardownOnce env before reason =
     [TerminatingCreated reason, Started (TerminatingInstall reason)] @
     (case env (before @ [TerminatingCreated reason, Started (TerminatingInstall reason)])
               (TerminatingInstall reason) of
        None \<Rightarrow> [Resolved (TerminatingInstall reason), AdapterDisconnect reason]
      | Some e \<Rightarrow> [Rejected (TerminatingInstall reason)])"

section \<open>Variable containers (variables.ts)\<close>

text \<open>
  \<^verbatim>\<open>Crdp.Runtime.RemoteObject\<close>: the optional \<^verbatim>\<open>objectId\<close> is the remote object handle; \<open>'v\<close>
  stands for the other fields (type, value, description). \<^verbatim>\<open>undefined\<close> is \<open>None\<close>.
\<close>

record 'v RemoteObject =
  objectId :: "string option"
  payload :: 'v

text \<open>The object literal \<^verbatim>\<open>{ name: 'Exception', value: this._exception }\<close>.\<close>

record 'v PropertyDescriptor =
  prop_name :: string
  prop_value :: "'v RemoteObject"

text \<open>
  JavaScript's truthiness of an optional string, as in \<^verbatim>\<open>exception.objectId ? ... : ...\<close> and
  \<^verbatim>\<open>!!this._localRoot\<close>: \<^verbatim>\<open>undefined\<close> and the empty string are falsy.
\<close>

definition truthy :: "string option \<Rightarrow> bool" where
  "truthy x = (case x of None \<Rightarrow> False | Some str \<Rightarrow> str \<noteq> [])"

text \<open>
  The methods of \<^verbatim>\<open>ChromeDebugAdapter\<close> that the containers call. The adapter's code is not
  among the sources, so it is a parameter. Each method returns a promise: \<open>Inl\<close> is a
  rejection. \<open>'var\<close> is \<^verbatim>\<open>DebugProtocol.Variable\<close>.
\<close>

record ('v, 'var) ChromeDebugAdapter =
  getVariablesForObjectId ::
    "string option \<Rightarrow> string option \<Rightarrow> int option \<Rightarrow> int option \<Rightarrow> error + 'var list"
  setPropertyValue :: "string option \<Rightarrow> string \<Rightarrow> string \<Rightarrow> error + string"
  setVariableValue :: "string \<Rightarrow> int \<Rightarrow> string \<Rightarrow> string \<Rightarrow> error + string"
  remoteObjectToVariable :: "string \<Rightarrow> 'v RemoteObject \<Rightarrow> error + 'var"
  propertyDescriptorToVariable :: "'v PropertyDescriptor \<Rightarrow> error + 'var"

text \<open>The requests a container sends to the adapter, with their arguments, in order.\<close>

datatype 'v request =
    GetVariablesForObjectId "string option" "string option" "int option" "int option"
  | SetPropertyValue "string option" string string
  | SetVariableValue string int string string
  | RemoteObjectToVariable string "'v RemoteObject"
  | PropertyDescriptorToVariable "'v PropertyDescriptor"

text \<open>
  A promise in this model: the requests sent until it settled, and its result. \<open>thenP\<close> is
  \<^verbatim>\<open>Promise.then\<close> with one callback, which a rejection skips.
\<close>

type_synonym ('v, 'a) promise = "'v request list \<times> (error + 'a)"

definition resolved :: "'a \<Rightarrow> ('v, 'a) promise" where
  "resolved x = ([], Inr x)"

definition thenP :: "('v, 'a) promise \<Rightarrow> ('a \<Rightarrow> ('v, 'b) promise) \<Rightarrow> ('v, 'b) promise" where
  "thenP p callback =
     (case p of
        (sent, Inl e) \<Rightarrow> (sent, Inl e)
      | (sent, Inr x) \<Rightarrow> (case callback x of (sent', r) \<Rightarrow> (sent @ sent', r)))"

text \<open>
  The class hierarchy as a tagged union. Every container has the field \<^verbatim>\<open>objectId\<close> of
  \<^verbatim>\<open>BaseVariableContainer\<close> (first argument); a scope container also has \<^verbatim>\<open>_thisObj\<close>,
  \<^verbatim>\<open>_returnValue\<close>, \<^verbatim>\<open>_frameId\<close> and \<^verbatim>\<open>_origScopeIndex\<close>, an exception container
  \<^verbatim>\<open>_exception\<close>.
\<close>

datatype 'v VariableContainer =
    PropertyContainer "string option"
  | ScopeContainer "string option" "'v RemoteObject option" "'v RemoteObject option" string int
  | ExceptionContainer "string option" "'v RemoteObject"
  | ExceptionValueContainer "string option" "'v RemoteObject"

text \<open>
  The constructors.
  \<^verbatim>\<open>
  public constructor(frameId, origScopeIndex, objectId, thisObj?, returnValue?) {
      super(objectId);
      this._thisObj = thisObj; this._returnValue = returnValue;
      this._frameId = frameId; this._origScopeIndex = origScopeIndex;
  }
  \<close>
\<close>

definition new_ScopeContainer ::
  "string \<Rightarrow> int \<Rightarrow> string option \<Rightarrow> 'v RemoteObject option \<Rightarrow> 'v RemoteObject option
     \<Rightarrow> 'v VariableContainer" where
  "new_ScopeContainer frameId origScopeIndex objId thisObj returnValue =
     ScopeContainer objId thisObj returnValue frameId origScopeIndex"

text \<open>
  The constructor of \<^verbatim>\<open>ExceptionContainer\<close> does not use its first parameter: the base class
  gets \<^verbatim>\<open>exception.objectId\<close>. It is protected, and runs for both exception classes; here
  it gives the two fields it initializes.
  \<^verbatim>\<open>
  protected constructor(objectId: string, exception: Crdp.Runtime.RemoteObject) {
      super(exception.objectId);
      this._exception = exception;
  }
  \<close>
\<close>

definition ExceptionContainer_constructor ::
  "string option \<Rightarrow> 'v RemoteObject \<Rightarrow> string option \<times> 'v RemoteObject" where
  "ExceptionContainer_constructor objId exception = (objectId exception, exception)"

definition new_ExceptionContainer ::
  "string option \<Rightarrow> 'v RemoteObject \<Rightarrow> 'v VariableContainer" where
  "new_ExceptionContainer objId exception =
     (case ExceptionContainer_constructor objId exception of
        (baseObjectId, exc) \<Rightarrow> ExceptionContainer baseObjectId exc)"

text \<open>
  \<^verbatim>\<open>
  public constructor(exception: Crdp.Runtime.RemoteObject) {
      super('EXCEPTION_ID', exception);
  }
  \<close>
\<close>

definition new_ExceptionValueContainer :: "'v RemoteObject \<Rightarrow> 'v VariableContainer" where
  "new_ExceptionValueContainer exception =
     (case ExceptionContainer_constructor (Some ''EXCEPTION_ID'') exception of
        (baseObjectId, exc) \<Rightarrow> ExceptionValueContainer baseObjectId exc)"

text \<open>
  \<^verbatim>\<open>
  public static create(exception: Crdp.Runtime.RemoteObject): ExceptionContainer {
      return exception.objectId ?
          new ExceptionContainer(exception.objectId, exception) :
          new ExceptionValueContainer(exception);
  }
  \<close>
\<close>

definition create :: "'v RemoteObject \<Rightarrow> 'v VariableContainer" where
  "create exception =
     (if truthy (objectId exception)
      then new_ExceptionContainer (objectId exception) exception
      else new_ExceptionValueContainer exception)"

text \<open>
  \<^verbatim>\<open>BaseVariableContainer.expand\<close>:
  \<^verbatim>\<open>return adapter.getVariablesForObjectId(this.objectId, filter, start, count);\<close>
\<close>

definition baseExpand ::
  "('v, 'var) ChromeDebugAdapter \<Rightarrow> string option \<Rightarrow> string option \<Rightarrow> int option \<Rightarrow> int option
     \<Rightarrow> ('v, 'var list) promise" where
  "baseExpand adapter objId filterKind start count =
     ([GetVariablesForObjectId objId filterKind start count],
      getVariablesForObjectId adapter objId filterKind start count)"

text \<open>
  \<^verbatim>\<open>
  private insertRemoteObject(adapter, variables, name, obj) {
      return adapter.remoteObjectToVariable(name, obj).then(variable => {
          variables.unshift(variable);
          return variables;
      });
  }
  \<close>
\<close>

definition insertRemoteObject ::
  "('v, 'var) ChromeDebugAdapter \<Rightarrow> 'var list \<Rightarrow> string \<Rightarrow> 'v RemoteObject
     \<Rightarrow> ('v, 'var list) promise" where
  "insertRemoteObject adapter variables name obj =
     thenP ([RemoteObjectToVariable name obj], remoteObjectToVariable adapter name obj)
       (\<lambda>variable. resolved (variable # variables))"

text \<open>
  \<^verbatim>\<open>expand\<close>, by class. A scope container overrides it:
  \<^verbatim>\<open>
  return super.expand(adapter, 'all', start, count).then(variables => {
      if (this._thisObj) {
          return this.insertRemoteObject(adapter, variables, 'this', this._thisObj);
      }
      return variables;
  }).then(variables => {
      if (this._returnValue) {
          return this.insertRemoteObject(adapter, variables, 'Return value', this._returnValue);
      }
      return variables;
  });
  \<close>
  and so does an exception value container:
  \<^verbatim>\<open>
  const excValuePropDescriptor = <any>{ name: 'Exception', value: this._exception };
  return adapter.propertyDescriptorToVariable(excValuePropDescriptor)
      .then(variable => [variable]);
  \<close>
\<close>

fun expand ::
  "('v, 'var) ChromeDebugAdapter \<Rightarrow> 'v VariableContainer \<Rightarrow> string option \<Rightarrow> int option
     \<Rightarrow> int option \<Rightarrow> ('v, 'var list) promise" where
  "expand adapter (PropertyContainer objId) filterKind start count =
     baseExpand adapter objId filterKind start count"
| "expand adapter (ScopeContainer objId thisObj returnValue frameId origScopeIndex) filterKind start count =
     thenP
       (thenP (baseExpand adapter objId (Some ''all'') start count)
          (\<lambda>variables. case thisObj of
               Some obj \<Rightarrow> insertRemoteObject adapter variables ''this'' obj
             | None \<Rightarrow> resolved variables))
       (\<lambda>variables. case returnValue of
            Some obj \<Rightarrow> insertRemoteObject adapter variables ''Return value'' obj
          | None \<Rightarrow> resolved variables)"
| "expand adapter (ExceptionContainer objId exception) filterKind start count =
     baseExpand adapter objId filterKind start count"
| "expand adapter (ExceptionValueContainer objId exception) filterKind start count =
     thenP
       ([PropertyDescriptorToVariable \<lparr>prop_name = ''Exception'', prop_value = exception\<rparr>],
        propertyDescriptorToVariable adapter \<lparr>prop_name = ''Exception'', prop_value = exception\<rparr>)
       (\<lambda>variable. resolved [variable])"

text \<open>
  \<^verbatim>\<open>setValue\<close>, by class. \<^verbatim>\<open>PropertyContainer\<close>, and the exception containers that inherit
  from it:
  \<^verbatim>\<open>return adapter.setPropertyValue(this.objectId, name, value);\<close>
  \<^verbatim>\<open>ScopeContainer\<close>:
  \<^verbatim>\<open>return adapter.setVariableValue(this._frameId, this._origScopeIndex, name, value);\<close>
\<close>

fun setValue ::
  "('v, 'var) ChromeDebugAdapter \<Rightarrow> 'v VariableContainer \<Rightarrow> string \<Rightarrow> string
     \<Rightarrow> ('v, string) promise" where
  "setValue adapter (PropertyContainer objId) name val =
     ([SetPropertyValue objId name val], setPropertyValue adapter objId name val)"
| "setValue adapter (ScopeContainer objId thisObj returnValue frameId origScopeIndex) name val =
     ([SetVariableValue frameId origScopeIndex name val],
      setVariableValue adapter frameId origScopeIndex name val)"
| "setValue adapter (ExceptionContainer objId exception) name val =
     ([SetPropertyValue objId name val], setPropertyValue adapter objId name val)"
| "setValue adapter (ExceptionValueContainer objId exception) name val =
     ([SetPropertyValue objId name val], setPropertyValue adapter objId name val)"

subsection \<open>What the adapter's conversions do with a value that has no handle\<close>

text \<open>
  \<^verbatim>\<open>DebugProtocol.Variable\<close>, as far as the containers' results are read: the name of the
  variable and the value it holds.
\<close>

type_synonym 'v Variable = "string \<times> 'v"

text \<open>
  Modelled from the spec: the conversion \<^verbatim>\<open>ChromeDebugAdapter.propertyDescriptorToVariable\<close>
  (chromeDebugAdapter.ts is not among the sources) of a descriptor whose value has no object
  handle. The spec says that the expansion of an exception value container fabricates
  exactly one synthetic property named \<^verbatim>\<open>Exception\<close> holding the thrown primitive, and that
  for the thrown primitive 42 it is exactly \<^verbatim>\<open>[{name: "Exception", value: 42}]\<close>: the
  variable has the descriptor's name and holds the descriptor's value. An adapter that
  converts so:
\<close>

definition convertsPrimitives :: "('v, 'v Variable) ChromeDebugAdapter \<Rightarrow> bool" where
  "convertsPrimitives adapter \<longleftrightarrow>
     (\<forall>descriptor.
        \<not> truthy (objectId (prop_value descriptor)) \<longrightarrow>
        propertyDescriptorToVariable adapter descriptor =
          Inr (prop_name descriptor, payload (prop_value descriptor)))"

text \<open>
  Modelled from the spec: which requests to the adapter query remote state. A remote object
  handle is what addresses a live object of the target, so fetching the properties of a
  handle and setting a property or a scope variable are queries of the target; a conversion
  can query the target only about a value that has a handle, and the spec says that
  converting the handle-less value of an exception value container queries no remote state.
\<close>

fun queriesRemoteState :: "'v request \<Rightarrow> bool" where
  "queriesRemoteState (GetVariablesForObjectId objId filterKind start count) = True"
| "queriesRemoteState (SetPropertyValue objId name val) = True"
| "queriesRemoteState (SetVariableValue frameId origScopeIndex name val) = True"
| "queriesRemoteState (RemoteObjectToVariable name obj) = truthy (objectId obj)"
| "queriesRemoteState (PropertyDescriptorToVariable descriptor) =
     truthy (objectId (prop_value descriptor))"

subsection \<open>isIndexedPropName\<close>

text \<open>
  \<^verbatim>\<open>parseInt(string, 10)\<close> of ECMAScript, which is part of the language and not of the
  repository: leading white space and line terminators are dropped, one sign is read, and the
  longest run of decimal digits that follows is the number; with no digit there the result is
  \<^verbatim>\<open>NaN\<close>, here \<open>None\<close>. A \<open>char\<close> is a code unit below 256, so of the white space of
  ECMAScript this model has the characters of that range. The integer is exact here; the
  Number the program gets is its nearest double, or an infinity, and never \<^verbatim>\<open>NaN\<close>.
\<close>

definition isWhiteSpace :: "char \<Rightarrow> bool" where
  "isWhiteSpace c \<longleftrightarrow>
     c \<in> set [CHR 0x09, CHR 0x0A, CHR 0x0B, CHR 0x0C, CHR 0x0D, CHR 0x20, CHR 0xA0]"

definition isDigit :: "char \<Rightarrow> bool" where
  "isDigit c \<longleftrightarrow> c \<in> set ''0123456789''"

definition digitValue :: "char \<Rightarrow> int" where
  "digitValue c = int (of_char c) - 48"

definition parseInt10 :: "string \<Rightarrow> int option" where
  "parseInt10 inputString =
     (let S = dropWhile isWhiteSpace inputString;
          sign = (if S \<noteq> [] \<and> hd S = CHR ''-'' then - 1 else 1);
          S' = (if S \<noteq> [] \<and> (hd S = CHR ''+'' \<or> hd S = CHR ''-'') then tl S else S);
          Z = takeWhile isDigit S'
      in if Z = [] then None
         else Some (sign * foldl (\<lambda>n c. 10 * n + digitValue c) 0 Z))"

text \<open>
  \<^verbatim>\<open>
  export function isIndexedPropName(name: string): boolean {
      return !isNaN(parseInt(name, 10));
  }
  \<close>
\<close>

definition isIndexedPropName :: "string \<Rightarrow> bool" where
  "isIndexedPropName name \<longleftrightarrow> parseInt10 name \<noteq> None"

text \<open>
  The spec's words for the lenient parse, to compare the code with: a key parses when it is
  some leading white space, an optional sign, at least one decimal digit, and then anything.
\<close>

definition lenientParseSucceeds :: "string \<Rightarrow> bool" where
  "lenientParseSucceeds key \<longleftrightarrow>
     (\<exists>spaces sign digits rest.
        key = spaces @ sign @ digits @ rest \<and>
        (\<forall>c \<in> set spaces. isWhiteSpace c) \<and>
        sign \<in> {[], ''+'', ''-''} \<and>
        digits \<noteq> [] \<and> (\<forall>c \<in> set digits. isDigit c))"

section \<open>Mapping remote paths (remotePathTransformer.ts)\<close>

text \<open>
  \<^verbatim>\<open>path.posix.isAbsolute\<close> and \<^verbatim>\<open>path.win32.isAbsolute\<close> of Node.js, which are not part of
  the repository: a POSIX path is absolute when it starts with a slash; a Windows path is
  absolute when it starts with a slash or a backslash, or with a drive letter, a colon and a
  slash or backslash.
\<close>

definition posix_isAbsolute :: "string \<Rightarrow> bool" where
  "posix_isAbsolute path \<longleftrightarrow> path \<noteq> [] \<and> hd path = CHR ''/''"

definition isPathSeparator :: "char \<Rightarrow> bool" where
  "isPathSeparator c \<longleftrightarrow> c = CHR ''/'' \<or> c = CHR 0x5C"

definition isWindowsDeviceRoot :: "char \<Rightarrow> bool" where
  "isWindowsDeviceRoot c \<longleftrightarrow>
     c \<in> set ''ABCDEFGHIJKLMNOPQRSTUVWXYZ'' \<or> c \<in> set ''abcdefghijklmnopqrstuvwxyz''"

definition win32_isAbsolute :: "string \<Rightarrow> bool" where
  "win32_isAbsolute path \<longleftrightarrow>
     (case path of
        [] \<Rightarrow> False
      | code # others \<Rightarrow>
          isPathSeparator code \<or>
          (length path > 2 \<and> isWindowsDeviceRoot code \<and> path ! 1 = CHR '':'' \<and>
           isPathSeparator (path ! 2)))"

text \<open>
  The functions the mapping branch calls and whose code is not among the sources: the
  \<^verbatim>\<open>relative\<close> and \<^verbatim>\<open>join\<close> of \<^verbatim>\<open>path.win32\<close> and \<^verbatim>\<open>path.posix\<close>, and
  \<^verbatim>\<open>forceForwardSlashes\<close> and \<^verbatim>\<open>fixDriveLetterAndSlashes\<close> of utils.ts (the second argument
  of the latter is \<^verbatim>\<open>uppercaseDriveLetter\<close>). They are parameters.
\<close>

record pathFunctions =
  win32_relative :: "string \<Rightarrow> string \<Rightarrow> string"
  posix_relative :: "string \<Rightarrow> string \<Rightarrow> string"
  win32_join :: "string \<Rightarrow> string \<Rightarrow> string"
  posix_join :: "string \<Rightarrow> string \<Rightarrow> string"
  forceForwardSlashes :: "string \<Rightarrow> string"
  fixDriveLetterAndSlashes :: "string \<Rightarrow> bool \<Rightarrow> string"

text \<open>The test \<^verbatim>\<open>a.match(/^[A-Za-z]:/)\<close>.\<close>

definition startsWithDriveLetter :: "string \<Rightarrow> bool" where
  "startsWithDriveLetter a \<longleftrightarrow>
     (case a of c # d # others \<Rightarrow> isWindowsDeviceRoot c \<and> d = CHR '':'' | _ \<Rightarrow> False)"

definition relative :: "pathFunctions \<Rightarrow> string \<Rightarrow> string \<Rightarrow> string" where
  "relative lib a b =
     (if startsWithDriveLetter a then win32_relative lib a b else posix_relative lib a b)"

definition join :: "pathFunctions \<Rightarrow> string \<Rightarrow> string \<Rightarrow> string" where
  "join lib a b =
     (if startsWithDriveLetter a then win32_join lib a b
      else forceForwardSlashes lib (posix_join lib a b))"

text \<open>The fields \<^verbatim>\<open>_localRoot\<close> and \<^verbatim>\<open>_remoteRoot\<close>; \<^verbatim>\<open>undefined\<close> until \<^verbatim>\<open>init\<close> sets them.\<close>

record RemotePathTransformer =
  localRoot :: "string option"
  remoteRoot :: "string option"

text \<open>
  \<^verbatim>\<open>
  private shouldMapPaths(remotePath: string): boolean {
      return !!this._localRoot && !!this._remoteRoot &&
          (path.posix.isAbsolute(remotePath) || path.win32.isAbsolute(remotePath));
  }
  \<close>
\<close>

definition shouldMapPaths :: "RemotePathTransformer \<Rightarrow> string \<Rightarrow> bool" where
  "shouldMapPaths this remotePath \<longleftrightarrow>
     truthy (localRoot this) \<and> truthy (remoteRoot this) \<and>
     (posix_isAbsolute remotePath \<or> win32_isAbsolute remotePath)"

text \<open>
  The two mappings return the path and the lines they give to \<^verbatim>\<open>logger.log\<close>.
  \<^verbatim>\<open>
  public getClientPathFromTargetPath(remotePath: string): string {
      if (!this.shouldMapPaths(remotePath)) return remotePath;
      const relPath = relative(this._remoteRoot, remotePath);
      let localPath = join(this._localRoot, relPath);
      localPath = utils.fixDriveLetterAndSlashes(localPath);
      logger.log(`Mapped remoteToLocal: ${remotePath} -> ${localPath}`);
      return localPath;
  }
  \<close>
\<close>

definition getClientPathFromTargetPath ::
  "pathFunctions \<Rightarrow> RemotePathTransformer \<Rightarrow> string \<Rightarrow> string \<times> string list" where
  "getClientPathFromTargetPath lib this remotePath =
     (if \<not> shouldMapPaths this remotePath then (remotePath, [])
      else
        let relPath = relative lib (the (remoteRoot this)) remotePath;
            localPath = join lib (the (localRoot this)) relPath;
            localPath' = fixDriveLetterAndSlashes lib localPath False
        in (localPath', [''Mapped remoteToLocal: '' @ remotePath @ '' -> '' @ localPath']))"

text \<open>
  \<^verbatim>\<open>
  public getTargetPathFromClientPath(localPath: string): string {
      if (!this.shouldMapPaths(localPath)) return localPath;
      const relPath = relative(this._localRoot, localPath);
      let remotePath = join(this._remoteRoot, relPath);
      remotePath = utils.fixDriveLetterAndSlashes(remotePath, /*uppercaseDriveLetter=*/true);
      logger.log(`Mapped localToRemote: ${localPath} -> ${remotePath}`);
      return remotePath;
  }
  \<close>
\<close>

definition getTargetPathFromClientPath ::
  "pathFunctions \<Rightarrow> RemotePathTransformer \<Rightarrow> string \<Rightarrow> string \<times> string list" where
  "getTargetPathFromClientPath lib this localPath =
     (if \<not> shouldMapPaths this localPath then (localPath, [])
      else
        let relPath = relative lib (the (localRoot this)) localPath;
            remotePath = join lib (the (remoteRoot this)) relPath;
            remotePath' = fixDriveLetterAndSlashes lib remotePath True
        in (remotePath', [''Mapped localToRemote: '' @ localPath @ '' -> '' @ remotePath']))"

section \<open>An adapter for the examples\<close>

text \<open>
  An adapter for the examples. The rest of a remote object is an integer, a variable is a
  name with the integer, the fetched properties are \<open>a = 1\<close> and \<open>b = 2\<close>, and a set
  value is confirmed as it was given.
\<close>

definition exampleAdapter :: "(int, string \<times> int) ChromeDebugAdapter" where
  "exampleAdapter =
     \<lparr>getVariablesForObjectId = (\<lambda>objId filterKind start count. Inr [(''a'', 1), (''b'', 2)]),
      setPropertyValue = (\<lambda>objId name val. Inr val),
      setVariableValue = (\<lambda>frameId origScopeIndex name val. Inr val),
      remoteObjectToVariable = (\<lambda>name obj. Inr (name, payload obj)),
      propertyDescriptorToVariable =
        (\<lambda>descriptor. Inr (prop_name descriptor, payload (prop_value descriptor)))\<rparr>"

text \<open>
  Path functions for the examples, right for a POSIX path below its root: the relative path
  is what follows the root and its slash, and joining puts a separator between.
\<close>

definition examplePathFunctions :: pathFunctions where
  "examplePathFunctions =
     \<lparr>win32_relative = (\<lambda>a b. drop (Suc (length a)) b),
      posix_relative = (\<lambda>a b. drop (Suc (length a)) b),
      win32_join = (\<lambda>a b. a @ [CHR 0x5C] @ b),
      posix_join = (\<lambda>a b. a @ ''/'' @ b),
      forceForwardSlashes = (\<lambda>p. p),
      fixDriveLetterAndSlashes = (\<lambda>p uppercaseDriveLetter. p)\<rparr>"

section \<open>Properties\<close>

subsection \<open>Unfolding the actions\<close>

lemma andThen_statement: "andThen (statement f) k s = k (f s)"
  by (simp add: andThen_def statement_def)

lemma await_unfold:
  "await env c s =
     (case env (trace s @ [Started c]) c of
        None \<Rightarrow> (Inr (), s\<lparr>trace := trace s @ [Started c, Resolved c]\<rparr>)
      | Some e \<Rightarrow> (Inl e, s\<lparr>trace := trace s @ [Started c, Rejected c]\<rparr>))"
  by (simp add: await_def settle_def emit_def andThen_statement split: option.split)

lemma await_cases:
  obtains (resolved) "env (trace s @ [Started c]) c = None"
      "await env c s = (Inr (), s\<lparr>trace := trace s @ [Started c, Resolved c]\<rparr>)"
   | (rejected) e where "env (trace s @ [Started c]) c = Some e"
      "await env c s = (Inl e, s\<lparr>trace := trace s @ [Started c, Rejected c]\<rparr>)"
  by (cases "env (trace s @ [Started c]) c") (simp_all add: await_unfold)

lemma disconnect_unfold:
  "disconnect env reason s =
     (case env (trace s @ [TerminatingCreated reason, Started (TerminatingInstall reason)])
               (TerminatingInstall reason) of
        None \<Rightarrow> Inr ()
      | Some e \<Rightarrow> Inl e,
      s\<lparr>trace := trace s @ teardownOnce env (trace s) reason\<rparr>)"
  by (simp add: disconnect_def teardownOnce_def await_unfold andThen_def statement_def emit_def
      split: option.split)

lemma disconnectRequest_split:
  "disconnectRequest env s = disconnectRequestAfterAwait env (disconnectRequestUntilAwait s)"
  by (simp add: disconnectRequest_def disconnect_def disconnectRequestAfterAwait_def
      disconnectRequestUntilAwait_def await_def andThen_def statement_def split: prod.split)

lemma disconnectRequest_unfold:
  "snd (disconnectRequest env s) =
     s\<lparr>ignoreNextDisconnectedFromWebSocket := True,
       trace := trace s @ teardownOnce env (trace s) DisconnectedFromWebsocket\<rparr>"
  by (simp add: disconnectRequest_def andThen_statement disconnect_unfold)

lemma onCloseHandler_ignored:
  "ignoreNextDisconnectedFromWebSocket s \<Longrightarrow> onCloseHandler env s = s"
  by (simp add: onCloseHandler_def)

lemma transportClosed_ignored:
  assumes "ignoreNextDisconnectedFromWebSocket s"
  shows "transportClosed env s = s"
proof -
  have "(onCloseHandler env ^^ n) s = s" for n
    by (induction n) (simp_all add: onCloseHandler_ignored assms)
  then show ?thesis by (simp add: transportClosed_def)
qed

lemma installServiceComponents_trace:
  "installServiceComponents env cs s = (r, s') \<Longrightarrow>
     \<exists>evs. trace s' = trace s @ evs \<and> SentInitializedEvent \<notin> set evs \<and>
       (r = Inr () \<longrightarrow>
          evs = concat (map (\<lambda>c. [Started (ComponentInstall c), Resolved (ComponentInstall c)]) cs))"
proof (induction cs arbitrary: s)
  case Nil
  then show ?case by (auto simp: statement_def)
next
  case (Cons c cs)
  show ?case
  proof (cases rule: await_cases[of env s "ComponentInstall c"])
    case resolved
    let ?s1 = "s\<lparr>trace := trace s @ [Started (ComponentInstall c), Resolved (ComponentInstall c)]\<rparr>"
    from resolved Cons.prems have "installServiceComponents env cs ?s1 = (r, s')"
      by (simp add: andThen_def)
    from Cons.IH[OF this] show ?thesis by auto
  next
    case (rejected e)
    with Cons.prems show ?thesis
      by (auto simp: andThen_def)
  qed
qed

subsection \<open>Properties of the Connected state\<close>

text \<open>
  C1. In the Connected state, a client disconnect request followed by a transport-close
  notification runs the teardown sequence (create the Terminating state, install it, finalize
  the disconnect) exactly once: the notification adds no event to the one teardown of the
  request. This holds when the notification arrives after the request has been processed, and
  also when it arrives while the request is suspended at its await. When the install of the
  Terminating state resolves, the one teardown is the whole sequence; when it rejects, the
  exception ends the sequence before the disconnect is finalized.
\<close>

theorem disconnect_then_close_teardown_once:
  "transportClosed env (snd (disconnectRequest env s)) = snd (disconnectRequest env s) \<and>
   trace (transportClosed env (snd (disconnectRequest env s))) =
     trace s @ teardownOnce env (trace s) DisconnectedFromWebsocket \<and>
   trace (snd (disconnectRequestAfterAwait env
                 (transportClosed env (disconnectRequestUntilAwait s)))) =
     trace s @ teardownOnce env (trace s) DisconnectedFromWebsocket \<and>
   (env (trace s @ [TerminatingCreated DisconnectedFromWebsocket,
                    Started (TerminatingInstall DisconnectedFromWebsocket)])
        (TerminatingInstall DisconnectedFromWebsocket) = None \<longrightarrow>
      teardownOnce env (trace s) DisconnectedFromWebsocket =
        [TerminatingCreated DisconnectedFromWebsocket,
         Started (TerminatingInstall DisconnectedFromWebsocket),
         Resolved (TerminatingInstall DisconnectedFromWebsocket),
         AdapterDisconnect DisconnectedFromWebsocket]) \<and>
   length (filter (\<lambda>ev. \<exists>reason. ev = TerminatingCreated reason)
             (teardownOnce env (trace s) DisconnectedFromWebsocket)) = 1"
proof (intro conjI)
  show "transportClosed env (snd (disconnectRequest env s)) = snd (disconnectRequest env s)"
    by (rule transportClosed_ignored) (simp add: disconnectRequest_unfold)
next
  show "trace (transportClosed env (snd (disconnectRequest env s))) =
          trace s @ teardownOnce env (trace s) DisconnectedFromWebsocket"
    by (simp add: disconnectRequest_unfold transportClosed_ignored)
next
  have "ignoreNextDisconnectedFromWebSocket (disconnectRequestUntilAwait s)"
    by (simp add: disconnectRequestUntilAwait_def emit_def)
  then have "transportClosed env (disconnectRequestUntilAwait s) = disconnectRequestUntilAwait s"
    by (rule transportClosed_ignored)
  then have "snd (disconnectRequestAfterAwait env
                 (transportClosed env (disconnectRequestUntilAwait s))) =
             snd (disconnectRequest env s)"
    by (simp add: disconnectRequest_split)
  then show "trace (snd (disconnectRequestAfterAwait env
                 (transportClosed env (disconnectRequestUntilAwait s)))) =
          trace s @ teardownOnce env (trace s) DisconnectedFromWebsocket"
    by (simp add: disconnectRequest_unfold)
next
  show "env (trace s @ [TerminatingCreated DisconnectedFromWebsocket,
                    Started (TerminatingInstall DisconnectedFromWebsocket)])
        (TerminatingInstall DisconnectedFromWebsocket) = None \<longrightarrow>
      teardownOnce env (trace s) DisconnectedFromWebsocket =
        [TerminatingCreated DisconnectedFromWebsocket,
         Started (TerminatingInstall DisconnectedFromWebsocket),
         Resolved (TerminatingInstall DisconnectedFromWebsocket),
         AdapterDisconnect DisconnectedFromWebsocket]"
    by (simp add: teardownOnce_def)
next
  show "length (filter (\<lambda>ev. \<exists>reason. ev = TerminatingCreated reason)
             (teardownOnce env (trace s) DisconnectedFromWebsocket)) = 1"
    by (simp add: teardownOnce_def split: option.split)
qed

theorem disconnect_then_close_teardown_once_witness:
  "trace (transportClosed (\<lambda>_ _. None) (snd (disconnectRequest (\<lambda>_ _. None)
        \<lparr>ignoreNextDisconnectedFromWebSocket = False, closeHandlers = 1,
         trace = [SentInitializedEvent, SubscribedOnClose :: unit event]\<rparr>))) =
     [SentInitializedEvent, SubscribedOnClose,
      TerminatingCreated DisconnectedFromWebsocket,
      Started (TerminatingInstall DisconnectedFromWebsocket),
      Resolved (TerminatingInstall DisconnectedFromWebsocket),
      AdapterDisconnect DisconnectedFromWebsocket]"
proof -
  let ?env = "\<lambda>_ _. None :: error option"
  let ?s = "\<lparr>ignoreNextDisconnectedFromWebSocket = False, closeHandlers = 1,
         trace = [SentInitializedEvent, SubscribedOnClose :: unit event]\<rparr>"
  note once = disconnect_then_close_teardown_once[where env = ?env and s = ?s]
  from once have "trace (transportClosed ?env (snd (disconnectRequest ?env ?s))) =
      trace ?s @ teardownOnce ?env (trace ?s) DisconnectedFromWebsocket"
    by blast
  moreover from once have "teardownOnce ?env (trace ?s) DisconnectedFromWebsocket =
        [TerminatingCreated DisconnectedFromWebsocket,
         Started (TerminatingInstall DisconnectedFromWebsocket),
         Resolved (TerminatingInstall DisconnectedFromWebsocket),
         AdapterDisconnect DisconnectedFromWebsocket]"
    by blast
  ultimately show ?thesis by simp
qed

text \<open>
  C2. The claim is that a transport-close notification arriving while the flag is set clears
  the flag. In the code the only assignment of \<open>False\<close> is inside the branch taken when the
  flag is already false, so a handler that finds the flag set leaves the session as it is, the
  flag included: after a client disconnect request and the notification the flag is still set.
\<close>

theorem close_while_flag_set_keeps_flag:
  "onCloseHandler env (s\<lparr>ignoreNextDisconnectedFromWebSocket := True\<rparr>) =
     s\<lparr>ignoreNextDisconnectedFromWebSocket := True\<rparr> \<and>
   ignoreNextDisconnectedFromWebSocket (transportClosed env (snd (disconnectRequest env s)))"
  by (simp add: onCloseHandler_ignored transportClosed_ignored disconnectRequest_unfold)

text \<open>
  C3. In every run of \<^verbatim>\<open>install\<close>, the \<^verbatim>\<open>initialized\<close> event is sent exactly when the run
  succeeds, and then the events of the run are, in this order: the base install, the adapter
  logic's install and the domain enabling, each started and resolved; every service component's
  install in the order of the list, each resolved before the next is started; the runtime
  starter, started and resolved; the \<^verbatim>\<open>initialized\<close> event; the subscription to the close
  notification.
\<close>

theorem install_initialized_order:
  assumes run: "install env serviceComponents s = (r, s')"
  shows "\<exists>evs. trace s' = trace s @ evs \<and>
           (SentInitializedEvent \<in> set evs \<longleftrightarrow> r = Inr ()) \<and>
           (SentInitializedEvent \<in> set evs \<longrightarrow>
              evs = [Started SuperInstall, Resolved SuperInstall,
                     Started LogicInstall, Resolved LogicInstall,
                     Started EnableDomains, Resolved EnableDomains] @
                    concat (map (\<lambda>c. [Started (ComponentInstall c), Resolved (ComponentInstall c)])
                                serviceComponents) @
                    [Started RunIfWaitingForDebugger, Resolved RunIfWaitingForDebugger,
                     SentInitializedEvent, SubscribedOnClose])"
proof (cases rule: await_cases[of env s SuperInstall])
  case (rejected e)
  with run show ?thesis by (auto simp: install_def andThen_def)
next
  case resolved
  define s1 where "s1 = s\<lparr>trace := trace s @ [Started SuperInstall, Resolved SuperInstall]\<rparr>"
  show ?thesis
  proof (cases rule: await_cases[of env s1 LogicInstall])
    case (rejected e)
    with run resolved show ?thesis by (auto simp: install_def andThen_def s1_def)
  next
    case resolved2: resolved
    define s2 where "s2 = s1\<lparr>trace := trace s1 @ [Started LogicInstall, Resolved LogicInstall]\<rparr>"
    show ?thesis
    proof (cases rule: await_cases[of env s2 EnableDomains])
      case (rejected e)
      with run resolved resolved2 show ?thesis
        by (auto simp: install_def andThen_def s1_def s2_def)
    next
      case resolved3: resolved
      define s3 where "s3 = s2\<lparr>trace := trace s2 @ [Started EnableDomains, Resolved EnableDomains]\<rparr>"
      obtain rc s4 where comps: "installServiceComponents env serviceComponents s3 = (rc, s4)"
        by (cases "installServiceComponents env serviceComponents s3")
      from installServiceComponents_trace[OF comps]
      obtain evs where evs: "trace s4 = trace s3 @ evs" "SentInitializedEvent \<notin> set evs"
        "rc = Inr () \<longrightarrow> evs = concat (map (\<lambda>c. [Started (ComponentInstall c),
             Resolved (ComponentInstall c)]) serviceComponents)"
        by blast
      have t3: "trace s3 = trace s @ [Started SuperInstall, Resolved SuperInstall,
                     Started LogicInstall, Resolved LogicInstall,
                     Started EnableDomains, Resolved EnableDomains]"
        by (simp add: s1_def s2_def s3_def)
      have rest: "install env serviceComponents s =
          andThen (installServiceComponents env serviceComponents)
         (andThen (await env RunIfWaitingForDebugger)
         (andThen (statement (emit SentInitializedEvent))
                  (statement (\<lambda>s. emit SubscribedOnClose
                                (s\<lparr>closeHandlers := Suc (closeHandlers s)\<rparr>))))) s3"
        using resolved resolved2 resolved3
        by (simp add: install_def andThen_def s1_def s2_def s3_def)
      show ?thesis
      proof (cases rc)
        case (Inl e)
        with run rest comps have "r = Inl e" "s' = s4" by (simp_all add: andThen_def)
        with evs t3 show ?thesis by auto
      next
        case (Inr u)
        show ?thesis
        proof (cases rule: await_cases[of env s4 RunIfWaitingForDebugger])
          case (rejected e)
          with run rest comps Inr have "r = Inl e"
            "s' = s4\<lparr>trace := trace s4 @
                      [Started RunIfWaitingForDebugger, Rejected RunIfWaitingForDebugger]\<rparr>"
            by (simp_all add: andThen_def)
          with evs t3 show ?thesis by auto
        next
          case resolved4: resolved
          with run rest comps Inr have "r = Inr ()"
            "trace s' = trace s4 @
               [Started RunIfWaitingForDebugger, Resolved RunIfWaitingForDebugger,
                SentInitializedEvent, SubscribedOnClose]"
            by (auto simp: andThen_def statement_def emit_def)
          with evs t3 Inr show ?thesis by auto
        qed
      qed
    qed
  qed
qed

theorem install_initialized_order_witness:
  "install (\<lambda>_ _. None) [''breakpoints'', ''stepping'']
       \<lparr>ignoreNextDisconnectedFromWebSocket = False, closeHandlers = 0, trace = []\<rparr> =
     (Inr (),
      \<lparr>ignoreNextDisconnectedFromWebSocket = False, closeHandlers = 1,
       trace = [Started SuperInstall, Resolved SuperInstall,
                Started LogicInstall, Resolved LogicInstall,
                Started EnableDomains, Resolved EnableDomains,
                Started (ComponentInstall ''breakpoints''), Resolved (ComponentInstall ''breakpoints''),
                Started (ComponentInstall ''stepping''), Resolved (ComponentInstall ''stepping''),
                Started RunIfWaitingForDebugger, Resolved RunIfWaitingForDebugger,
                SentInitializedEvent, SubscribedOnClose]\<rparr>)"
proof -
  obtain r s' where run:
    "install (\<lambda>_ _. None) [''breakpoints'', ''stepping'']
       \<lparr>ignoreNextDisconnectedFromWebSocket = False, closeHandlers = 0, trace = []\<rparr> = (r, s')"
    by (cases "install (\<lambda>_ _. None) [''breakpoints'', ''stepping'']
       \<lparr>ignoreNextDisconnectedFromWebSocket = False, closeHandlers = 0, trace = []\<rparr>")
  have ok: "r = Inr ()" and st: "ignoreNextDisconnectedFromWebSocket s' = False"
      "closeHandlers s' = 1"
    using run by (auto simp: install_def andThen_def await_unfold statement_def emit_def)
  from install_initialized_order[OF run] ok
  have "trace s' = [Started SuperInstall, Resolved SuperInstall,
                Started LogicInstall, Resolved LogicInstall,
                Started EnableDomains, Resolved EnableDomains,
                Started (ComponentInstall ''breakpoints''), Resolved (ComponentInstall ''breakpoints''),
                Started (ComponentInstall ''stepping''), Resolved (ComponentInstall ''stepping''),
                Started RunIfWaitingForDebugger, Resolved RunIfWaitingForDebugger,
                SentInitializedEvent, SubscribedOnClose]"
    by auto
  with st ok run show ?thesis by (cases s') simp
qed

text \<open>
  C8. In the Connected state each of the requests \<^verbatim>\<open>initialize\<close>, \<^verbatim>\<open>launch\<close> and \<^verbatim>\<open>attach\<close>
  fails with its descriptive error and leaves the session as it was: the flag, the
  subscriptions and the trace are unchanged, so no collaborator was called and no teardown was
  started. This is so of the handler the constructor's table gives each request, and of the
  dispatch of the request when the declarers do not declare these three requests, as the spec
  assumes.
\<close>

theorem connected_rejects_initialize_launch_attach:
  assumes "declared ''initialize'' = None" and "declared ''launch'' = None"
    and "declared ''attach'' = None"
  shows "map_option (\<lambda>handler. handler s) (connectedHandlers env ''initialize'') =
           Some (Inl (Error ''The debug adapter is already initialized. Calling initialize again is not supported.''), s) \<and>
         map_option (\<lambda>handler. handler s) (connectedHandlers env ''launch'') =
           Some (Inl (Error ''Can't launch  to a new target while connected to a previous target''), s) \<and>
         map_option (\<lambda>handler. handler s) (connectedHandlers env ''attach'') =
           Some (Inl (Error ''Can't attach to a new target while connected to a previous target''), s) \<and>
         callCommandHandler declared env ''initialize'' s =
           (Inl (Error ''The debug adapter is already initialized. Calling initialize again is not supported.''), s) \<and>
         callCommandHandler declared env ''launch'' s =
           (Inl (Error ''Can't launch  to a new target while connected to a previous target''), s) \<and>
         callCommandHandler declared env ''attach'' s =
           (Inl (Error ''Can't attach to a new target while connected to a previous target''), s)"
  using assms
  by (simp add: callCommandHandler_def connectedHandlers_def throw_def map_add_def)

theorem connected_rejects_initialize_launch_attach_witness:
  "callCommandHandler Map.empty (\<lambda>_ _. None) ''launch''
       \<lparr>ignoreNextDisconnectedFromWebSocket = False, closeHandlers = 1,
        trace = [SentInitializedEvent, SubscribedOnClose :: unit event]\<rparr> =
     (Inl (Error ''Can't launch  to a new target while connected to a previous target''),
      \<lparr>ignoreNextDisconnectedFromWebSocket = False, closeHandlers = 1,
       trace = [SentInitializedEvent, SubscribedOnClose]\<rparr>)"
  using connected_rejects_initialize_launch_attach
    [where declared = Map.empty and env = "\<lambda>_ _. None" and
        s = "\<lparr>ignoreNextDisconnectedFromWebSocket = False, closeHandlers = 1,
         trace = [SentInitializedEvent, SubscribedOnClose :: unit event]\<rparr>"]
  by simp

text \<open>
  C9. The claim is that the Terminating state carries the reason of its trigger, the
  client-requested reason for a client disconnect request. The \<^verbatim>\<open>disconnect\<close> handler passes
  \<^verbatim>\<open>TerminatingReason.DisconnectedFromWebsocket\<close>, the constant of the transport-close handler.
\<close>

theorem client_disconnect_reason_counterexample:
  "TerminatingCreated ClientRequested \<notin>
     set (trace (snd (disconnectRequest (\<lambda>_ _. None)
        \<lparr>ignoreNextDisconnectedFromWebSocket = False, closeHandlers = 1,
         trace = [] :: unit event list\<rparr>))) \<and>
   trace (snd (disconnectRequest (\<lambda>_ _. None)
        \<lparr>ignoreNextDisconnectedFromWebSocket = False, closeHandlers = 1,
         trace = [] :: unit event list\<rparr>)) =
     [TerminatingCreated DisconnectedFromWebsocket,
      Started (TerminatingInstall DisconnectedFromWebsocket),
      Resolved (TerminatingInstall DisconnectedFromWebsocket),
      AdapterDisconnect DisconnectedFromWebsocket]"
  by (simp add: disconnectRequest_unfold teardownOnce_def)

text \<open>
  C9, amended. Both triggers create the Terminating state with the reason
  \<^verbatim>\<open>DisconnectedFromWebsocket\<close>: a transport-close notification with no client disconnect
  before it (the flag is not set, \<^verbatim>\<open>install\<close> has subscribed once) runs one teardown with that
  reason, and so does a client disconnect request.
\<close>

theorem teardown_reason_DisconnectedFromWebsocket:
  "(\<not> ignoreNextDisconnectedFromWebSocket s \<and> closeHandlers s = 1 \<longrightarrow>
      trace (transportClosed env s) =
        trace s @ teardownOnce env (trace s) DisconnectedFromWebsocket) \<and>
   trace (snd (disconnectRequest env s)) =
     trace s @ teardownOnce env (trace s) DisconnectedFromWebsocket \<and>
   (TerminatingCreated reason \<in> set (teardownOnce env (trace s) DisconnectedFromWebsocket)
      \<longleftrightarrow> reason = DisconnectedFromWebsocket)"
  by (auto simp: transportClosed_def onCloseHandler_def disconnect_unfold
      disconnectRequest_unfold teardownOnce_def split: option.splits)

theorem teardown_reason_DisconnectedFromWebsocket_witness:
  "trace (transportClosed (\<lambda>_ _. None)
        \<lparr>ignoreNextDisconnectedFromWebSocket = False, closeHandlers = 1,
         trace = [SentInitializedEvent, SubscribedOnClose :: unit event]\<rparr>) =
     [SentInitializedEvent, SubscribedOnClose,
      TerminatingCreated DisconnectedFromWebsocket,
      Started (TerminatingInstall DisconnectedFromWebsocket),
      Resolved (TerminatingInstall DisconnectedFromWebsocket),
      AdapterDisconnect DisconnectedFromWebsocket]"
  using teardown_reason_DisconnectedFromWebsocket
    [of "\<lparr>ignoreNextDisconnectedFromWebSocket = False, closeHandlers = 1,
         trace = [SentInitializedEvent, SubscribedOnClose :: unit event]\<rparr>" "\<lambda>_ _. None"]
  by (simp add: teardownOnce_def)

subsection \<open>Properties of the variable containers\<close>

text \<open>
  C4. The claim is that a scope container with both a \<^verbatim>\<open>this\<close> value and a return value
  expands to \<^verbatim>\<open>this\<close>, \<^verbatim>\<open>Return value\<close> and then the fetched properties. Each synthetic
  entry is put at the front with \<^verbatim>\<open>unshift\<close>, \<^verbatim>\<open>this\<close> first and \<^verbatim>\<open>Return value\<close> after it,
  so the result starts with \<^verbatim>\<open>Return value\<close>.
\<close>

theorem scope_expand_this_first_counterexample:
  "snd (expand exampleAdapter
          (new_ScopeContainer ''frame0'' 0 (Some ''scope0'')
             (Some \<lparr>objectId = Some ''obj1'', payload = 7\<rparr>)
             (Some \<lparr>objectId = None, payload = 42\<rparr>))
          None None None) =
     Inr [(''Return value'', 42), (''this'', 7), (''a'', 1), (''b'', 2)] \<and>
   snd (expand exampleAdapter
          (new_ScopeContainer ''frame0'' 0 (Some ''scope0'')
             (Some \<lparr>objectId = Some ''obj1'', payload = 7\<rparr>)
             (Some \<lparr>objectId = None, payload = 42\<rparr>))
          None None None) \<noteq>
     Inr [(''this'', 7), (''Return value'', 42), (''a'', 1), (''b'', 2)]"
  by (simp add: new_ScopeContainer_def exampleAdapter_def baseExpand_def insertRemoteObject_def
      thenP_def resolved_def)

text \<open>
  C4, amended. When the adapter's three calls succeed, a scope container constructed with both
  a \<^verbatim>\<open>this\<close> value and a return value expands to the synthetic \<^verbatim>\<open>Return value\<close> entry, then
  the synthetic \<^verbatim>\<open>this\<close> entry, then the properties of the handle in fetch order. The fetch
  asks for the filter \<^verbatim>\<open>all\<close> whatever filter was given.
\<close>

theorem scope_expand_return_value_then_this:
  assumes "getVariablesForObjectId adapter objId (Some ''all'') start count = Inr properties"
    and "remoteObjectToVariable adapter ''this'' thisObj = Inr thisVariable"
    and "remoteObjectToVariable adapter ''Return value'' returnValue = Inr returnVariable"
  shows "expand adapter
           (new_ScopeContainer frameId origScopeIndex objId (Some thisObj) (Some returnValue))
           filterKind start count =
         ([GetVariablesForObjectId objId (Some ''all'') start count,
           RemoteObjectToVariable ''this'' thisObj,
           RemoteObjectToVariable ''Return value'' returnValue],
          Inr (returnVariable # thisVariable # properties))"
  using assms
  by (simp add: new_ScopeContainer_def baseExpand_def insertRemoteObject_def thenP_def
      resolved_def)

theorem scope_expand_return_value_then_this_witness:
  "expand exampleAdapter
     (new_ScopeContainer ''frame0'' 0 (Some ''scope0'')
        (Some \<lparr>objectId = Some ''obj1'', payload = 7\<rparr>)
        (Some \<lparr>objectId = None, payload = 42\<rparr>))
     (Some ''named'') (Some 0) (Some 10) =
   ([GetVariablesForObjectId (Some ''scope0'') (Some ''all'') (Some 0) (Some 10),
     RemoteObjectToVariable ''this'' \<lparr>objectId = Some ''obj1'', payload = 7\<rparr>,
     RemoteObjectToVariable ''Return value'' \<lparr>objectId = None, payload = 42\<rparr>],
    Inr [(''Return value'', 42), (''this'', 7), (''a'', 1), (''b'', 2)])"
proof -
  have fetch: "getVariablesForObjectId exampleAdapter (Some ''scope0'') (Some ''all'') (Some 0)
      (Some 10) = Inr [(''a'', 1), (''b'', 2)]"
    by (simp add: exampleAdapter_def)
  have this_entry: "remoteObjectToVariable exampleAdapter ''this''
      \<lparr>objectId = Some ''obj1'', payload = 7\<rparr> = Inr (''this'', 7)"
    by (simp add: exampleAdapter_def)
  have return_entry: "remoteObjectToVariable exampleAdapter ''Return value''
      \<lparr>objectId = None, payload = 42\<rparr> = Inr (''Return value'', 42)"
    by (simp add: exampleAdapter_def)
  show ?thesis
    by (rule scope_expand_return_value_then_this[OF fetch this_entry return_entry])
qed

lemma digit_not_space: "isDigit c \<Longrightarrow> \<not> isWhiteSpace c"
  by (auto simp: isDigit_def isWhiteSpace_def)

lemma digit_not_sign: "isDigit c \<Longrightarrow> c \<noteq> CHR ''+'' \<and> c \<noteq> CHR ''-''"
  by (auto simp: isDigit_def)

lemma sign_not_space: "\<not> isWhiteSpace CHR ''+''" "\<not> isWhiteSpace CHR ''-''"
  by (simp_all add: isWhiteSpace_def)

lemma parseInt10_None_iff:
  "parseInt10 key = None \<longleftrightarrow>
     takeWhile isDigit
       (let S = dropWhile isWhiteSpace key
        in if S \<noteq> [] \<and> (hd S = CHR ''+'' \<or> hd S = CHR ''-'') then tl S else S) = []"
  by (simp add: parseInt10_def Let_def)

lemma lenient_imp_indexed:
  assumes "lenientParseSucceeds key"
  shows "isIndexedPropName key"
proof -
  from assms obtain spaces sign digits rest where
    key: "key = spaces @ sign @ digits @ rest" and
    sp: "\<forall>c \<in> set spaces. isWhiteSpace c" and
    sg: "sign \<in> {[], ''+'', ''-''}" and
    ne: "digits \<noteq> []" and dg: "\<forall>c \<in> set digits. isDigit c"
    unfolding lenientParseSucceeds_def by blast
  from ne obtain d ds where digits: "digits = d # ds" by (cases digits) auto
  with dg have d: "isDigit d" by simp
  have drop: "dropWhile isWhiteSpace key = dropWhile isWhiteSpace (sign @ digits @ rest)"
    using sp by (simp add: key dropWhile_append2)
  from sg consider "sign = []" | "sign = ''+''" | "sign = ''-''" by auto
  then show ?thesis
  proof cases
    case 1
    with drop d digits have "dropWhile isWhiteSpace key = d # ds @ rest"
      by (simp add: digit_not_space)
    with d show ?thesis
      by (simp add: isIndexedPropName_def parseInt10_None_iff Let_def digit_not_sign)
  next
    case 2
    with drop digits have "dropWhile isWhiteSpace key = CHR ''+'' # d # ds @ rest"
      by (simp add: sign_not_space)
    with d show ?thesis
      by (simp add: isIndexedPropName_def parseInt10_None_iff Let_def)
  next
    case 3
    with drop digits have "dropWhile isWhiteSpace key = CHR ''-'' # d # ds @ rest"
      by (simp add: sign_not_space)
    with d show ?thesis
      by (simp add: isIndexedPropName_def parseInt10_None_iff Let_def)
  qed
qed

lemma indexed_imp_lenient:
  assumes "isIndexedPropName key"
  shows "lenientParseSucceeds key"
proof -
  define S where "S = dropWhile isWhiteSpace key"
  define sign where
    "sign = (if S \<noteq> [] \<and> (hd S = CHR ''+'' \<or> hd S = CHR ''-'') then [hd S] else [])"
  define S' where
    "S' = (if S \<noteq> [] \<and> (hd S = CHR ''+'' \<or> hd S = CHR ''-'') then tl S else S)"
  have "key = takeWhile isWhiteSpace key @ S" by (simp add: S_def)
  moreover have "S = sign @ S'" by (auto simp: sign_def S'_def)
  moreover have "S' = takeWhile isDigit S' @ dropWhile isDigit S'" by simp
  ultimately have key:
    "key = takeWhile isWhiteSpace key @ sign @ takeWhile isDigit S' @ dropWhile isDigit S'"
    by simp
  have ne: "takeWhile isDigit S' \<noteq> []"
    using assms unfolding isIndexedPropName_def parseInt10_None_iff S'_def S_def Let_def .
  have sg: "sign \<in> {[], ''+'', ''-''}" by (auto simp: sign_def)
  have sp: "\<forall>c \<in> set (takeWhile isWhiteSpace key). isWhiteSpace c"
    by (auto dest: set_takeWhileD)
  have dg: "\<forall>c \<in> set (takeWhile isDigit S'). isDigit c"
    by (auto dest: set_takeWhileD)
  show ?thesis
    unfolding lenientParseSucceeds_def
    using key sp sg ne dg by blast
qed

text \<open>
  C5. \<^verbatim>\<open>isIndexedPropName\<close> holds of a key exactly when the lenient base-10 parse of the key
  gives a number, which is exactly when the key is white space, an optional sign, at least one
  digit and then anything. So it holds of \<open>3\<close>, \<open>-1\<close> and \<open>03x\<close>, and not of \<open>x3\<close>.
\<close>

theorem isIndexedPropName_lenient_parse:
  "(isIndexedPropName key \<longleftrightarrow> parseInt10 key \<noteq> None) \<and>
   (isIndexedPropName key \<longleftrightarrow> lenientParseSucceeds key) \<and>
   isIndexedPropName ''3'' \<and> isIndexedPropName ''-1'' \<and> isIndexedPropName ''03x'' \<and>
   \<not> isIndexedPropName ''x3''"
proof (intro conjI)
  show "isIndexedPropName key \<longleftrightarrow> parseInt10 key \<noteq> None"
    by (simp add: isIndexedPropName_def)
  show "isIndexedPropName key \<longleftrightarrow> lenientParseSucceeds key"
    using lenient_imp_indexed indexed_imp_lenient by blast
  show "isIndexedPropName ''3''" "isIndexedPropName ''-1''" "isIndexedPropName ''03x''"
    "\<not> isIndexedPropName ''x3''"
    by (simp_all add: isIndexedPropName_def parseInt10_def isWhiteSpace_def isDigit_def Let_def)
qed

theorem isIndexedPropName_lenient_parse_witness:
  "parseInt10 ''  -12px'' = Some (- 12) \<and> isIndexedPropName ''  -12px'' \<and>
   lenientParseSucceeds ''  -12px'' \<and>
   parseInt10 ''px12'' = None \<and> \<not> lenientParseSucceeds ''px12''"
proof -
  have parsed: "parseInt10 ''  -12px'' = Some (- 12)"
    by (simp add: parseInt10_def isWhiteSpace_def isDigit_def digitValue_def Let_def)
  have nan: "parseInt10 ''px12'' = None"
    by (simp add: parseInt10_def isWhiteSpace_def isDigit_def Let_def)
  from parsed have "parseInt10 ''  -12px'' \<noteq> None" by simp
  with isIndexedPropName_lenient_parse[of "''  -12px''"]
  have yes: "isIndexedPropName ''  -12px''" "lenientParseSucceeds ''  -12px''" by blast+
  from nan isIndexedPropName_lenient_parse[of "''px12''"]
  have no: "\<not> lenientParseSucceeds ''px12''" by blast
  from parsed nan yes no show ?thesis by blast
qed

text \<open>
  C6. The factory tests \<^verbatim>\<open>exception.objectId\<close> for truthiness, and that test is what having
  an object handle means: a thrown value has none when its \<^verbatim>\<open>objectId\<close> is \<^verbatim>\<open>undefined\<close>
  (or empty). For every thrown value with no object handle the factory gives an exception
  value container; its \<^verbatim>\<open>expand\<close> sends the adapter one request, the conversion of the
  descriptor named \<^verbatim>\<open>Exception\<close> that holds the thrown value, which queries no remote state,
  and with an adapter that converts a handle-less value as the spec says it returns exactly
  one variable, named \<^verbatim>\<open>Exception\<close> and holding the thrown primitive. For every thrown value
  with an object handle the factory gives an exception container that wraps that handle:
  its \<^verbatim>\<open>objectId\<close> is the handle, and \<^verbatim>\<open>expand\<close> fetches the properties of the handle.
\<close>

theorem exception_container_factory:
  "(\<not> truthy (objectId exception) \<longrightarrow>
      create exception = ExceptionValueContainer (objectId exception) exception \<and>
      fst (expand adapter (create exception) filterKind start count) =
        [PropertyDescriptorToVariable \<lparr>prop_name = ''Exception'', prop_value = exception\<rparr>] \<and>
      (\<forall>request \<in> set (fst (expand adapter (create exception) filterKind start count)).
         \<not> queriesRemoteState request) \<and>
      (convertsPrimitives adapter \<longrightarrow>
         snd (expand adapter (create exception) filterKind start count) =
           Inr [(''Exception'', payload exception)])) \<and>
   (truthy (objectId exception) \<longrightarrow>
      create exception = ExceptionContainer (objectId exception) exception \<and>
      expand adapter (create exception) filterKind start count =
        ([GetVariablesForObjectId (objectId exception) filterKind start count],
         getVariablesForObjectId adapter (objectId exception) filterKind start count))"
proof (cases "truthy (objectId exception)")
  case True
  then show ?thesis
    by (simp add: create_def new_ExceptionContainer_def ExceptionContainer_constructor_def
        baseExpand_def)
next
  case False
  let ?descriptor = "\<lparr>prop_name = ''Exception'', prop_value = exception\<rparr>"
  have made: "create exception = ExceptionValueContainer (objectId exception) exception"
    using False
    by (simp add: create_def new_ExceptionValueContainer_def ExceptionContainer_constructor_def)
  have sent: "fst (expand adapter (create exception) filterKind start count) =
      [PropertyDescriptorToVariable ?descriptor]"
    by (simp add: made thenP_def resolved_def split: sum.split prod.split)
  have local: "\<not> queriesRemoteState (PropertyDescriptorToVariable ?descriptor)"
    using False by simp
  have result: "snd (expand adapter (create exception) filterKind start count) =
      Inr [(''Exception'', payload exception)]" if "convertsPrimitives adapter"
  proof -
    from that False have "propertyDescriptorToVariable adapter ?descriptor =
        Inr (''Exception'', payload exception)"
      by (simp add: convertsPrimitives_def)
    then show ?thesis
      by (simp add: made thenP_def resolved_def)
  qed
  from False made sent local result show ?thesis by simp
qed

theorem exception_container_factory_witness:
  "expand exampleAdapter (create \<lparr>objectId = None, payload = 42\<rparr>) None None None =
     ([PropertyDescriptorToVariable
         \<lparr>prop_name = ''Exception'', prop_value = \<lparr>objectId = None, payload = 42\<rparr>\<rparr>],
      Inr [(''Exception'', 42)]) \<and>
   \<not> queriesRemoteState (PropertyDescriptorToVariable
         \<lparr>prop_name = ''Exception'', prop_value = \<lparr>objectId = None, payload = 42 :: int\<rparr>\<rparr>) \<and>
   create \<lparr>objectId = Some ''obj7'', payload = (0 :: int)\<rparr> =
     ExceptionContainer (Some ''obj7'') \<lparr>objectId = Some ''obj7'', payload = 0\<rparr>"
proof -
  let ?thrown = "\<lparr>objectId = None, payload = 42 :: int\<rparr>"
  let ?object = "\<lparr>objectId = Some ''obj7'', payload = 0 :: int\<rparr>"
  let ?descriptor = "\<lparr>prop_name = ''Exception'', prop_value = ?thrown\<rparr>"
  have no_handle: "\<not> truthy (objectId ?thrown)" by (simp add: truthy_def)
  have converts: "convertsPrimitives exampleAdapter"
    by (simp add: convertsPrimitives_def exampleAdapter_def)
  note primitive = exception_container_factory
      [where exception = ?thrown and adapter = exampleAdapter
         and filterKind = None and start = None and count = None]
  from primitive no_handle
  have sent: "fst (expand exampleAdapter (create ?thrown) None None None) =
      [PropertyDescriptorToVariable ?descriptor]"
    by blast
  from primitive no_handle converts
  have result: "snd (expand exampleAdapter (create ?thrown) None None None) =
      Inr [(''Exception'', payload ?thrown)]"
    by blast
  from primitive no_handle sent
  have local: "\<not> queriesRemoteState (PropertyDescriptorToVariable ?descriptor)"
    by simp
  have handle: "truthy (objectId ?object)" by (simp add: truthy_def)
  with exception_container_factory[where exception = ?object]
  have made: "create ?object = ExceptionContainer (objectId ?object) ?object" by blast
  from sent result have "expand exampleAdapter (create ?thrown) None None None =
      ([PropertyDescriptorToVariable ?descriptor], Inr [(''Exception'', 42)])"
    by (simp add: prod_eq_iff)
  with local made show ?thesis by simp
qed

text \<open>
  C7. \<^verbatim>\<open>setValue\<close> on a scope container sends the adapter \<^verbatim>\<open>setVariableValue\<close> with the frame
  identifier and the scope's original index, whatever handle the container wraps;
  \<^verbatim>\<open>setValue\<close> on a property container sends \<^verbatim>\<open>setPropertyValue\<close> with the wrapped handle.
\<close>

theorem setValue_addresses:
  "setValue adapter (new_ScopeContainer frameId origScopeIndex objId thisObj returnValue) name val =
     ([SetVariableValue frameId origScopeIndex name val],
      setVariableValue adapter frameId origScopeIndex name val) \<and>
   setValue adapter (PropertyContainer objId) name val =
     ([SetPropertyValue objId name val], setPropertyValue adapter objId name val)"
  by (simp add: new_ScopeContainer_def)

subsection \<open>Properties of the path mapping\<close>

text \<open>
  C10. When the local root or the remote root is unset (\<^verbatim>\<open>undefined\<close> or empty), or the
  path is absolute neither as a POSIX path nor as a Windows path, both mappings of
  \<^verbatim>\<open>RemotePathTransformer\<close> return the path they were given, and log nothing.
\<close>

theorem unmapped_paths_unchanged:
  assumes "localRoot this \<in> {None, Some []} \<or> remoteRoot this \<in> {None, Some []} \<or>
           (\<not> posix_isAbsolute path \<and> \<not> win32_isAbsolute path)"
  shows "getClientPathFromTargetPath lib this path = (path, []) \<and>
         getTargetPathFromClientPath lib this path = (path, [])"
proof -
  from assms have "\<not> shouldMapPaths this path"
    by (auto simp: shouldMapPaths_def truthy_def)
  then show ?thesis
    by (simp add: getClientPathFromTargetPath_def getTargetPathFromClientPath_def)
qed

theorem unmapped_paths_unchanged_witness:
  "getClientPathFromTargetPath examplePathFunctions
     \<lparr>localRoot = None, remoteRoot = Some ''/srv/app''\<rparr>
     ''/srv/app/main.js'' = (''/srv/app/main.js'', []) \<and>
   getTargetPathFromClientPath examplePathFunctions
     \<lparr>localRoot = Some ''/home/me/app'', remoteRoot = Some []\<rparr>
     ''/home/me/app/main.js'' = (''/home/me/app/main.js'', []) \<and>
   getClientPathFromTargetPath examplePathFunctions
     \<lparr>localRoot = Some ''/home/me/app'', remoteRoot = Some ''/srv/app''\<rparr>
     ''lib/util.js'' = (''lib/util.js'', [])"
  using
    unmapped_paths_unchanged
      [of "\<lparr>localRoot = None, remoteRoot = Some ''/srv/app''\<rparr>" "''/srv/app/main.js''"
          examplePathFunctions]
    unmapped_paths_unchanged
      [of "\<lparr>localRoot = Some ''/home/me/app'', remoteRoot = Some []\<rparr>"
          "''/home/me/app/main.js''" examplePathFunctions]
    unmapped_paths_unchanged
      [of "\<lparr>localRoot = Some ''/home/me/app'', remoteRoot = Some ''/srv/app''\<rparr>"
          "''lib/util.js''" examplePathFunctions]
  by (simp add: posix_isAbsolute_def win32_isAbsolute_def isPathSeparator_def
      isWindowsDeviceRoot_def)

text \<open>
  With both roots set and an absolute path the mappings do map, and log it.
\<close>

lemma mapped_path_example:
  "getClientPathFromTargetPath examplePathFunctions
     \<lparr>localRoot = Some ''/home/me/app'', remoteRoot = Some ''/srv/app''\<rparr>
     ''/srv/app/lib/util.js'' =
   (''/home/me/app/lib/util.js'',
    [''Mapped remoteToLocal: /srv/app/lib/util.js -> /home/me/app/lib/util.js''])"
  by (simp add: getClientPathFromTargetPath_def shouldMapPaths_def truthy_def
      posix_isAbsolute_def relative_def join_def startsWithDriveLetter_def
      isWindowsDeviceRoot_def examplePathFunctions_def Let_def)

end
